theory Spec2Isabelle
  imports Main
begin

section \<open>Data model of \<open>optimum/onnxruntime/modeling_ort.py\<close>\<close>

text \<open>
  The module is an adapter around external tools (the inference engine, the graph
  optimizer, the quantizer, the model hub). The adapter's own code is modelled
  statement by statement; each external tool is a field of the record \<open>env\<close>, so every
  theorem holds for whatever those tools compute. What is fixed about the tools is
  their file behaviour: a reader fails on a missing file, a writer writes exactly the
  path it is given.
\<close>

subsection \<open>Paths\<close>

text \<open>
  A path is its list of components. File names (\<open>latest_model_name\<close>, \<open>file_name\<close>, the
  well-known weight names) are single components, so \<open>Path.joinpath\<close> and
  \<open>os.path.join\<close> append one component, \<open>.parent\<close> drops the last one and \<open>.name\<close>
  is the last one (the empty string for the empty path, as in \<open>pathlib\<close>).
\<close>

type_synonym path = "string list"

definition joinpath :: "path \<Rightarrow> string \<Rightarrow> path" where
  "joinpath d n = d @ [n]"

definition parent :: "path \<Rightarrow> path" where
  "parent p = butlast p"

definition path_name :: "path \<Rightarrow> string" where
  "path_name p = (if p = [] then [] else last p)"

subsection \<open>Errors\<close>

datatype error =
    ValueError string
  | KeyError string
  | AttributeError string
  | IndexError
  | NotImplementedError
  | FileNotFoundError path
  | SameFileError
  | UnsupportedModelType string
  | ExternalError string

subsection \<open>Tensors\<close>

text \<open>
  A tensor is a shape and its elements. The adapter never computes on elements: it only
  converts between the framework's tensors and the engine's arrays, so the elements are
  carried as opaque integers.
\<close>

datatype tensor = Tensor "nat list" "int list"
datatype ndarray = NDArray "nat list" "int list"

fun numpy :: "tensor \<Rightarrow> ndarray" where
  "numpy (Tensor sh xs) = NDArray sh xs"

fun from_numpy :: "ndarray \<Rightarrow> tensor" where
  "from_numpy (NDArray sh xs) = Tensor sh xs"

subsection \<open>Artifacts and sessions\<close>

text \<open>
  The content of an artifact file: the declared input and output names of the graph, in
  order, and the rest of the graph (nodes and weights) as an opaque number.
\<close>

record onnx_model =
  graph_inputs :: "string list"
  graph_outputs :: "string list"
  graph_body :: nat

text \<open>An \<open>ort.InferenceSession\<close>: the graph it was opened on and its execution provider.\<close>

record session =
  session_model :: onnx_model
  session_provider :: string

definition get_inputs :: "session \<Rightarrow> string list" where
  "get_inputs s = graph_inputs (session_model s)"

definition get_outputs :: "session \<Rightarrow> string list" where
  "get_outputs s = graph_outputs (session_model s)"

subsection \<open>Configurations\<close>

text \<open>
  \<open>PretrainedConfig\<close>: the model type and the numeric hyperparameters that \<open>getattr\<close>
  reads by name.
\<close>

record PretrainedConfig =
  model_type :: string
  attributes :: "string \<rightharpoonup> int"

type_synonym config_dict = "string \<rightharpoonup> int"

definition getattr :: "PretrainedConfig \<Rightarrow> string \<Rightarrow> error + int" where
  "getattr c n = (case attributes c n of None \<Rightarrow> Inl (AttributeError n) | Some v \<Rightarrow> Inr v)"

text \<open>
  \<open>OptimizationConfig\<close>: the fields \<open>optimize\<close> reads, the remaining fusion toggles as a
  list of named flags, and the attribute \<open>model_type\<close> that \<open>optimize\<close> assigns
  (\<open>None\<close> while the attribute has not been set).
\<close>

record OptimizationConfig =
  optimization_level :: int
  optimize_for_gpu :: bool
  optimize_with_onnxruntime_only :: bool
  fusion_toggles :: "(string \<times> bool) list"
  cfg_model_type :: "string option"

text \<open>The result of \<open>FusionOptions.parse\<close>, an external function of the configuration.\<close>

datatype fusion_options = FusionOptions_parse OptimizationConfig

datatype QuantizationMode = IntegerOps | QLinearOps
datatype QuantType = QInt8 | QUInt8

text \<open>
  An entry of \<open>operators_to_quantize\<close> is a member of the enumeration
  \<open>ORTQuantizableOperator\<close>, which carries its \<open>value\<close>, or a plain string.
\<close>

datatype operator_entry = ORTQuantizableOperator string | OperatorName string

fun op_type :: "operator_entry \<Rightarrow> string" where
  "op_type (ORTQuantizableOperator v) = v"
| "op_type (OperatorName s) = s"

record QuantizationConfig =
  is_static :: bool
  per_channel :: bool
  mode :: QuantizationMode
  weights_dtype :: QuantType
  activations_dtype :: QuantType
  reduce_range :: bool
  nodes_to_quantize :: "string list"
  nodes_to_exclude :: "string list"
  operators_to_quantize :: "operator_entry list"
  weights_symmetric :: bool
  activations_symmetric :: bool

subsection \<open>Arguments of the external tools\<close>

record optimize_model_args =
  arg_input :: path
  arg_model_type :: string
  arg_num_heads :: int
  arg_hidden_size :: int
  arg_opt_level :: int
  arg_use_gpu :: bool
  arg_optimization_options :: fusion_options
  arg_only_onnxruntime :: bool

record extra_options =
  WeightSymmetric :: bool
  ActivationSymmetric :: bool
  EnableSubgraph :: bool
  ForceSymmetric :: bool

record quantizer_args =
  q_model :: onnx_model
  q_static :: bool
  q_per_channel :: bool
  q_mode :: QuantizationMode
  q_weight_qType :: QuantType
  q_input_qType :: QuantType
  q_reduce_range :: bool
  q_nodes_to_quantize :: "string list"
  q_nodes_to_exclude :: "string list"
  q_op_types_to_quantize :: "string list"
  q_extra_options :: extra_options

record hub_request =
  hub_repo_id :: path
  hub_filename :: string
  hub_use_auth_token :: "string option"
  hub_revision :: "string option"
  hub_cache_dir :: "path option"
  hub_force_download :: bool

text \<open>The calls made to external tools, in the order they are made.\<close>

datatype event =
    Call_optimize_model optimize_model_args
  | Call_convert_float_to_float16
  | Call_ONNXQuantizer quantizer_args
  | Call_quantize_model
  | Call_save_model_to_file path
  | Call_InferenceSession path string
  | Call_onnx_load path
  | Call_copyfile path path
  | Call_hf_hub_download hub_request

subsection \<open>The adapter object\<close>

datatype adapter_class =
    ORTModel_base
  | ORTModelForFeatureExtraction
  | ORTModelForQuestionAnswering
  | ORTModelForSequenceClassification
  | ORTModelForTokenClassification
  | ORTModelForCausalLM

text \<open>
  An instance of \<open>ORTModel\<close> or of one of its subclasses. An attribute that \<open>__init__\<close>
  of the class does not assign is \<open>None\<close>.
\<close>

record ORTModel =
  cls :: adapter_class
  model :: "session option"
  config :: "PretrainedConfig option"
  model_save_dir :: "path option"
  latest_model_name :: string
  model_outputs :: "(string \<rightharpoonup> nat) option"
  model_inputs :: "(string \<rightharpoonup> nat) option"
  main_input_name :: "string option"

text \<open>
  The keyword arguments that reach \<open>__init__\<close>: \<open>config\<close> (popped by
  \<open>_from_pretrained\<close>), \<open>model_save_dir\<close> and \<open>latest_model_name\<close>; \<open>None\<close> is an
  absent key.
\<close>

record kwargs =
  kw_config :: "config_dict option"
  kw_model_save_dir :: "path option"
  kw_latest_model_name :: "string option"

subsection \<open>The outside world\<close>

text \<open>
  What the module imports and this file does not define: the constants of
  \<open>.utils\<close> and \<open>transformers.file_utils\<close>, \<open>_is_gpu_available\<close>, the registry of
  \<open>ORTConfigManager\<close> (model type to head-count field name, hidden-size field name and
  optimizer tag), and the computations of the external tools.
\<close>

record env =
  default_cache_path :: path
  ONNX_WEIGHTS_NAME :: string
  OPTIMIZED_ONNX_WEIGHTS_NAME :: string
  QUANTIZED_ONNX_WEIGHTS_NAME :: string
  is_gpu_available :: bool
  conf :: "string \<rightharpoonup> string \<times> string \<times> string"
  from_dict :: "config_dict \<Rightarrow> PretrainedConfig"
  ort_optimize_model :: "optimize_model_args \<Rightarrow> onnx_model \<Rightarrow> error + onnx_model"
  ort_convert_float_to_float16 :: "onnx_model \<Rightarrow> error + onnx_model"
  ort_quantizer_init :: "quantizer_args \<Rightarrow> error option"
  ort_quantize_model :: "quantizer_args \<Rightarrow> error + onnx_model"
  ort_session_init :: "onnx_model \<Rightarrow> string \<Rightarrow> error option"
  ort_run :: "session \<Rightarrow> (string \<times> ndarray) list \<Rightarrow> error + ndarray list"
  hub_fetch :: "hub_request \<Rightarrow> (path \<rightharpoonup> onnx_model) \<Rightarrow> error + path \<times> onnx_model"

text \<open>
  The state a call can read and change: the files and directories on disk, the trace of
  calls to external tools, and the heap of adapter objects and of
  \<open>OptimizationConfig\<close> objects, both addressed by reference.
\<close>

record world =
  fs :: "path \<rightharpoonup> onnx_model"
  dirs :: "path set"
  calls :: "event list"
  adapters :: "nat \<Rightarrow> ORTModel"
  opt_configs :: "nat \<Rightarrow> OptimizationConfig"
  next_ref :: nat

definition called :: "event \<Rightarrow> world \<Rightarrow> world" where
  "called ev w = w\<lparr>calls := calls w @ [ev]\<rparr>"

section \<open>Sequencing\<close>

text \<open>
  A statement returns a value or raises, and leaves a world behind either way.
  \<open>and_then\<close> runs the rest of the function body on the value, or propagates the error;
  \<open>raise_or\<close> does the same for an expression that does not touch the world.
\<close>

definition and_then ::
  "(error + 'a) \<times> world \<Rightarrow> ('a \<Rightarrow> world \<Rightarrow> (error + 'b) \<times> world) \<Rightarrow> (error + 'b) \<times> world" where
  "and_then r f = (case r of (Inl e, w) \<Rightarrow> (Inl e, w) | (Inr x, w) \<Rightarrow> f x w)"

definition raise_or ::
  "error + 'a \<Rightarrow> world \<Rightarrow> ('a \<Rightarrow> (error + 'b) \<times> world) \<Rightarrow> (error + 'b) \<times> world" where
  "raise_or r w f = (case r of Inl e \<Rightarrow> (Inl e, w) | Inr x \<Rightarrow> f x)"

section \<open>External tools, by their file behaviour\<close>

definition save_model_to_file :: "onnx_model \<Rightarrow> path \<Rightarrow> world \<Rightarrow> (error + unit) \<times> world" where
  "save_model_to_file m p w =
     (let w1 = called (Call_save_model_to_file p) w in
      if parent p \<in> dirs w1 then (Inr (), w1\<lparr>fs := (fs w1)(p \<mapsto> m)\<rparr>)
      else (Inl (FileNotFoundError p), w1))"

definition onnx_load :: "path \<Rightarrow> world \<Rightarrow> (error + onnx_model) \<times> world" where
  "onnx_load p w =
     (let w1 = called (Call_onnx_load p) w in
      case fs w1 p of None \<Rightarrow> (Inl (FileNotFoundError p), w1) | Some m \<Rightarrow> (Inr m, w1))"

definition copyfile :: "path \<Rightarrow> path \<Rightarrow> world \<Rightarrow> (error + unit) \<times> world" where
  "copyfile src dst w =
     (let w1 = called (Call_copyfile src dst) w in
      case fs w1 src of
        None \<Rightarrow> (Inl (FileNotFoundError src), w1)
      | Some m \<Rightarrow>
          if src = dst then (Inl SameFileError, w1)
          else if parent dst \<in> dirs w1 then (Inr (), w1\<lparr>fs := (fs w1)(dst \<mapsto> m)\<rparr>)
          else (Inl (FileNotFoundError dst), w1))"

definition InferenceSession :: "env \<Rightarrow> path \<Rightarrow> string \<Rightarrow> world \<Rightarrow> (error + session) \<times> world" where
  "InferenceSession E p provider w =
     (let w1 = called (Call_InferenceSession p provider) w in
      case fs w1 p of
        None \<Rightarrow> (Inl (FileNotFoundError p), w1)
      | Some m \<Rightarrow>
          (case ort_session_init E m provider of
             Some e \<Rightarrow> (Inl e, w1)
           | None \<Rightarrow> (Inr \<lparr>session_model = m, session_provider = provider\<rparr>, w1)))"

definition optimize_model :: "env \<Rightarrow> optimize_model_args \<Rightarrow> world \<Rightarrow> (error + onnx_model) \<times> world" where
  "optimize_model E args w =
     (let w1 = called (Call_optimize_model args) w in
      case fs w1 (arg_input args) of
        None \<Rightarrow> (Inl (FileNotFoundError (arg_input args)), w1)
      | Some m \<Rightarrow> (ort_optimize_model E args m, w1))"

definition convert_float_to_float16 :: "env \<Rightarrow> onnx_model \<Rightarrow> world \<Rightarrow> (error + onnx_model) \<times> world" where
  "convert_float_to_float16 E m w =
     (ort_convert_float_to_float16 E m, called Call_convert_float_to_float16 w)"

text \<open>The quantizer object is the argument record it was constructed from.\<close>

definition ONNXQuantizer :: "env \<Rightarrow> quantizer_args \<Rightarrow> world \<Rightarrow> (error + quantizer_args) \<times> world" where
  "ONNXQuantizer E args w =
     (let w1 = called (Call_ONNXQuantizer args) w in
      case ort_quantizer_init E args of Some e \<Rightarrow> (Inl e, w1) | None \<Rightarrow> (Inr args, w1))"

definition quantize_model :: "env \<Rightarrow> quantizer_args \<Rightarrow> world \<Rightarrow> (error + onnx_model) \<times> world" where
  "quantize_model E quantizer w = (ort_quantize_model E quantizer, called Call_quantize_model w)"

text \<open>
  A download puts the file into the cache and returns its local path; the directory of
  that path exists afterwards.
\<close>

definition hf_hub_download :: "env \<Rightarrow> hub_request \<Rightarrow> world \<Rightarrow> (error + path) \<times> world" where
  "hf_hub_download E req w =
     (let w1 = called (Call_hf_hub_download req) w in
      case hub_fetch E req (fs w1) of
        Inl e \<Rightarrow> (Inl e, w1)
      | Inr (p, m) \<Rightarrow> (Inr p, w1\<lparr>fs := (fs w1)(p \<mapsto> m), dirs := insert (parent p) (dirs w1)\<rparr>))"

section \<open>The registry helpers of \<open>ORTConfigManager\<close>\<close>

text \<open>
  Modelled from the spec: \<open>ORTConfigManager.check_supported_model_or_raise\<close>, defined in
  \<open>optimum/onnxruntime/utils.py\<close>. The source model type must be present in the
  registry, else the call fails with an "unsupported model type" condition.
\<close>

definition check_supported_model_or_raise :: "env \<Rightarrow> string \<Rightarrow> error + unit" where
  "check_supported_model_or_raise E mt =
     (case conf E mt of None \<Rightarrow> Inl (UnsupportedModelType mt) | Some _ \<Rightarrow> Inr ())"

text \<open>
  Modelled from the spec: \<open>ORTConfigManager.get_num_heads_name\<close>,
  \<open>get_hidden_size_name\<close> and \<open>get_model_ort_type\<close>, defined in
  \<open>optimum/onnxruntime/utils.py\<close>. Head count and hidden size are looked up by
  model-type-specific field names through the registry, and the optimizer's model-type tag
  is resolved through the same registry.
\<close>

definition get_num_heads_name :: "env \<Rightarrow> string \<Rightarrow> error + string" where
  "get_num_heads_name E mt =
     (case conf E mt of None \<Rightarrow> Inl (UnsupportedModelType mt) | Some (h, s, t) \<Rightarrow> Inr h)"

definition get_hidden_size_name :: "env \<Rightarrow> string \<Rightarrow> error + string" where
  "get_hidden_size_name E mt =
     (case conf E mt of None \<Rightarrow> Inl (UnsupportedModelType mt) | Some (h, s, t) \<Rightarrow> Inr s)"

definition get_model_ort_type :: "env \<Rightarrow> string \<Rightarrow> error + string" where
  "get_model_ort_type E mt =
     (case conf E mt of None \<Rightarrow> Inl (UnsupportedModelType mt) | Some (h, s, t) \<Rightarrow> Inr t)"

section \<open>\<open>ORTModel\<close>\<close>

text \<open>\<open>ORTModel.__init__\<close>, for an instance of class \<open>c\<close>.\<close>

definition ORTModel_init ::
  "adapter_class \<Rightarrow> session option \<Rightarrow> PretrainedConfig option \<Rightarrow> kwargs \<Rightarrow> ORTModel" where
  "ORTModel_init c m cfg kw =
     \<lparr>cls = c, model = m, config = cfg,
      model_save_dir = kw_model_save_dir kw,
      latest_model_name = (case kw_latest_model_name kw of None \<Rightarrow> ''model.onnx'' | Some n \<Rightarrow> n),
      model_outputs = None, model_inputs = None, main_input_name = None\<rparr>"

text \<open>
  The expression \<open>self.model_save_dir.joinpath(self.latest_model_name)\<close>, with which
  \<open>optimize\<close>, \<open>quantize\<close> and \<open>_save_pretrained\<close> locate the current artifact.
\<close>

definition current_artifact_path :: "ORTModel \<Rightarrow> error + path" where
  "current_artifact_path a =
     (case model_save_dir a of
        None \<Rightarrow> Inl (AttributeError ''joinpath'')
      | Some d \<Rightarrow> Inr (joinpath d (latest_model_name a)))"

text \<open>
  \<open>ORTModel.load_model\<close>; \<open>default_provider\<close> is the provider it chooses when none is
  given.
\<close>

definition default_provider :: "env \<Rightarrow> string" where
  "default_provider E =
     (if is_gpu_available E then ''CUDAExecutionProvider'' else ''CPUExecutionProvider'')"

definition load_model :: "env \<Rightarrow> path \<Rightarrow> string option \<Rightarrow> world \<Rightarrow> (error + session) \<times> world" where
  "load_model E p provider w =
     (let provider' = (case provider of None \<Rightarrow> default_provider E | Some pr \<Rightarrow> pr)
      in InferenceSession E p provider' w)"

text \<open>
  The last three statements of \<open>optimize\<close> and of \<open>quantize\<close>: load the new artifact,
  repoint the instance, return it.
\<close>

definition repoint :: "env \<Rightarrow> nat \<Rightarrow> path \<Rightarrow> world \<Rightarrow> (error + nat) \<times> world" where
  "repoint E self output_path w =
     and_then (load_model E output_path None w) (\<lambda>s w1.
       (Inr self,
        w1\<lparr>adapters := (adapters w1)(self := (adapters w1 self)
              \<lparr>model := Some s,
               model_save_dir := Some (parent output_path),
               latest_model_name := path_name output_path\<rparr>)\<rparr>))"

text \<open>
  \<open>ORTModel.optimize\<close>. \<open>optimization_config\<close> is a reference to the caller's object
  (\<open>None\<close> is Python's \<open>None\<close>). The \<open>logger.info\<close> calls, and \<open>is_fully_optimized\<close>,
  which only chooses the logged text, are left out.
\<close>

definition optimize :: "env \<Rightarrow> nat \<Rightarrow> nat option \<Rightarrow> path \<Rightarrow> world \<Rightarrow> (error + nat) \<times> world" where
  "optimize E self optimization_config output_path w =
     raise_or (current_artifact_path (adapters w self)) w (\<lambda>input_path.
     let output_path' = joinpath (default_cache_path E) (OPTIMIZED_ONNX_WEIGHTS_NAME E) in
     raise_or (case config (adapters w self) of
                 None \<Rightarrow> Inl (AttributeError ''model_type'') | Some c \<Rightarrow> Inr c) w (\<lambda>c.
     raise_or (check_supported_model_or_raise E (model_type c)) w (\<lambda>_.
     raise_or (get_num_heads_name E (model_type c)) w (\<lambda>heads_name.
     raise_or (getattr c heads_name) w (\<lambda>num_heads.
     raise_or (get_hidden_size_name E (model_type c)) w (\<lambda>size_name.
     raise_or (getattr c size_name) w (\<lambda>hidden_size.
     raise_or (get_model_ort_type E (model_type c)) w (\<lambda>optimization_model_type.
     raise_or (case optimization_config of
                 None \<Rightarrow> Inl (AttributeError ''model_type'') | Some r \<Rightarrow> Inr r) w (\<lambda>r.
     let w1 = w\<lparr>opt_configs := (opt_configs w)(r := (opt_configs w r)
                  \<lparr>cfg_model_type := Some optimization_model_type\<rparr>)\<rparr>;
         oc = opt_configs w1 r;
         optimization_options = FusionOptions_parse oc
     in
     and_then (optimize_model E
                 \<lparr>arg_input = input_path,
                  arg_model_type = optimization_model_type,
                  arg_num_heads = num_heads,
                  arg_hidden_size = hidden_size,
                  arg_opt_level = optimization_level oc,
                  arg_use_gpu = optimize_for_gpu oc,
                  arg_optimization_options = optimization_options,
                  arg_only_onnxruntime = optimize_with_onnxruntime_only oc\<rparr> w1)
       (\<lambda>optimized_model w2.
     and_then (if is_gpu_available E then convert_float_to_float16 E optimized_model w2
               else (Inr optimized_model, w2))
       (\<lambda>optimized_model' w3.
     and_then (save_model_to_file optimized_model' output_path' w3)
       (\<lambda>_ w4.
     repoint E self output_path' w4))))))))))))"

text \<open>\<open>ORTModel.quantize\<close>. The \<open>logger.info\<close> call is left out.\<close>

definition quantize :: "env \<Rightarrow> nat \<Rightarrow> QuantizationConfig \<Rightarrow> path \<Rightarrow> world \<Rightarrow> (error + nat) \<times> world" where
  "quantize E self quantization_config output_path w =
     (if is_static quantization_config then
        (Inl (ValueError ''Static Quantization is not yet supported, please us ORTQuantizer.''), w)
      else if is_gpu_available E then
        (Inl (ValueError ''GPU is not supported for quantization''), w)
      else
     raise_or (current_artifact_path (adapters w self)) w (\<lambda>input_path.
     let output_path' = joinpath (default_cache_path E) (QUANTIZED_ONNX_WEIGHTS_NAME E) in
     and_then (onnx_load input_path w)
       (\<lambda>onnx_model w1.
     and_then (ONNXQuantizer E
                 \<lparr>q_model = onnx_model,
                  q_static = is_static quantization_config,
                  q_per_channel = per_channel quantization_config,
                  q_mode = mode quantization_config,
                  q_weight_qType = weights_dtype quantization_config,
                  q_input_qType = activations_dtype quantization_config,
                  q_reduce_range = reduce_range quantization_config,
                  q_nodes_to_quantize = nodes_to_quantize quantization_config,
                  q_nodes_to_exclude = nodes_to_exclude quantization_config,
                  q_op_types_to_quantize = map op_type (operators_to_quantize quantization_config),
                  q_extra_options =
                    \<lparr>WeightSymmetric = weights_symmetric quantization_config,
                     ActivationSymmetric = activations_symmetric quantization_config,
                     EnableSubgraph = False,
                     ForceSymmetric = (activations_symmetric quantization_config
                                       \<and> weights_symmetric quantization_config)\<rparr>\<rparr> w1)
       (\<lambda>quantizer w2.
     and_then (quantize_model E quantizer w2)
       (\<lambda>quantized_model w3.
     and_then (save_model_to_file quantized_model output_path' w3)
       (\<lambda>_ w4.
     repoint E self output_path' w4))))))"

text \<open>\<open>ORTModel._save_pretrained\<close>.\<close>

definition ORTModel_save_pretrained ::
  "env \<Rightarrow> nat \<Rightarrow> path \<Rightarrow> string option \<Rightarrow> world \<Rightarrow> (error + unit) \<times> world" where
  "ORTModel_save_pretrained E self save_directory file_name w =
     (let model_file_name = (case file_name of Some n \<Rightarrow> n | None \<Rightarrow> ONNX_WEIGHTS_NAME E) in
      raise_or (current_artifact_path (adapters w self)) w (\<lambda>src_path.
      let dst_path = joinpath save_directory model_file_name in
      copyfile src_path dst_path w))"

section \<open>Task adapters\<close>

text \<open>
  The dictionary \<open>{key.name: idx for idx, key in enumerate(names)}\<close>: a later
  occurrence of a name overwrites an earlier one.
\<close>

definition name_index :: "string list \<Rightarrow> (string \<rightharpoonup> nat)" where
  "name_index names = fold (\<lambda>(idx, n) d. d(n \<mapsto> idx)) (enumerate 0 names) Map.empty"

text \<open>
  \<open>__init__\<close> of each class: the base initialiser, then the name-to-position
  dictionaries, read from the session (an attribute error when \<open>model\<close> is \<open>None\<close>).
\<close>

fun construct ::
  "adapter_class \<Rightarrow> session option \<Rightarrow> PretrainedConfig option \<Rightarrow> kwargs \<Rightarrow> error + ORTModel" where
  "construct ORTModel_base m cfg kw = Inr (ORTModel_init ORTModel_base m cfg kw)"
| "construct ORTModelForSequenceClassification m cfg kw =
     (case m of
        None \<Rightarrow> Inl (AttributeError ''get_outputs'')
      | Some s \<Rightarrow>
          Inr ((ORTModel_init ORTModelForSequenceClassification m cfg kw)
                 \<lparr>model_outputs := Some (name_index (get_outputs s)),
                  model_inputs := Some (name_index (get_inputs s))\<rparr>))"
| "construct ORTModelForCausalLM m cfg kw =
     (case m of
        None \<Rightarrow> Inl (AttributeError ''get_outputs'')
      | Some s \<Rightarrow>
          Inr ((ORTModel_init ORTModelForCausalLM m cfg kw)
                 \<lparr>main_input_name := Some ''input_ids'',
                  model_outputs := Some (name_index (get_outputs s))\<rparr>))"
| "construct c m cfg kw =
     (case m of
        None \<Rightarrow> Inl (AttributeError ''get_outputs'')
      | Some s \<Rightarrow>
          Inr ((ORTModel_init c m cfg kw)\<lparr>model_outputs := Some (name_index (get_outputs s))\<rparr>))"

text \<open>The call \<open>cls(model=model, config=config, **kwargs)\<close>: a new object on the heap.\<close>

definition new_instance ::
  "adapter_class \<Rightarrow> session option \<Rightarrow> PretrainedConfig option \<Rightarrow> kwargs \<Rightarrow> world
     \<Rightarrow> (error + nat) \<times> world" where
  "new_instance c m cfg kw w =
     raise_or (construct c m cfg kw) w (\<lambda>a.
       (Inr (next_ref w),
        w\<lparr>adapters := (adapters w)(next_ref w := a), next_ref := Suc (next_ref w)\<rparr>))"

text \<open>
  \<open>ORTModel._from_pretrained\<close>, called on class \<open>c\<close>. \<open>os.path.isdir(model_id)\<close> is
  membership in the directories of the world.
\<close>

definition ORTModel_from_pretrained ::
  "env \<Rightarrow> adapter_class \<Rightarrow> path \<Rightarrow> string option \<Rightarrow> string option \<Rightarrow> bool \<Rightarrow> path option
     \<Rightarrow> string option \<Rightarrow> kwargs \<Rightarrow> world \<Rightarrow> (error + nat) \<times> world" where
  "ORTModel_from_pretrained E c model_id use_auth_token revision force_download cache_dir
       file_name kw w =
     (let config_dict = (case kw_config kw of None \<Rightarrow> Map.empty | Some d \<Rightarrow> d);
          kw1 = kw\<lparr>kw_config := None\<rparr>;
          model_file_name = (case file_name of Some n \<Rightarrow> n | None \<Rightarrow> ONNX_WEIGHTS_NAME E)
      in
      if model_id \<in> dirs w then
        let config = from_dict E config_dict in
        and_then (load_model E (joinpath model_id model_file_name) None w)
          (\<lambda>model w1.
        let kw2 = kw1\<lparr>kw_model_save_dir := Some model_id\<rparr> in
        new_instance c (Some model) (Some config) kw2 w1)
      else
        and_then (hf_hub_download E
                    \<lparr>hub_repo_id = model_id,
                     hub_filename = model_file_name,
                     hub_use_auth_token = use_auth_token,
                     hub_revision = revision,
                     hub_cache_dir = cache_dir,
                     hub_force_download = force_download\<rparr> w)
          (\<lambda>model_cache_path w1.
        let kw2 = kw1\<lparr>kw_model_save_dir := Some (parent model_cache_path),
                      kw_latest_model_name := Some (path_name model_cache_path)\<rparr> in
        and_then (load_model E model_cache_path None w1)
          (\<lambda>model w2.
        let config = from_dict E config_dict in
        new_instance c (Some model) (Some config) kw2 w2)))"

subsection \<open>\<open>forward\<close>\<close>

datatype model_output =
    BaseModelOutput tensor
  | QuestionAnsweringModelOutput tensor tensor
  | SequenceClassifierOutput tensor
  | TokenClassifierOutput tensor
  | CausalLMOutputWithCrossAttentions tensor

text \<open>
  The dictionary \<open>onnx_inputs\<close> that each \<open>forward\<close> builds, in insertion order.
  \<open>.cpu()\<close> on \<open>None\<close> is an attribute error. \<open>ORTModelForCausalLM.forward\<close> has no
  \<open>token_type_ids\<close> parameter: the argument lands in \<open>**kwargs\<close> and is never read.
\<close>

definition onnx_inputs ::
  "adapter_class \<Rightarrow> tensor option \<Rightarrow> tensor option \<Rightarrow> tensor option
     \<Rightarrow> error + (string \<times> ndarray) list" where
  "onnx_inputs c input_ids attention_mask token_type_ids =
     (case input_ids of
        None \<Rightarrow> Inl (AttributeError ''cpu'')
      | Some i \<Rightarrow>
          (case attention_mask of
             None \<Rightarrow> Inl (AttributeError ''cpu'')
           | Some m \<Rightarrow>
               (let d = [(''input_ids'', numpy i), (''attention_mask'', numpy m)] in
                if c = ORTModelForCausalLM then Inr d
                else (case token_type_ids of
                        None \<Rightarrow> Inr d
                      | Some t \<Rightarrow> Inr (d @ [(''token_type_ids'', numpy t)])))))"

text \<open>\<open>self.model.run(None, onnx_inputs)\<close>.\<close>

definition run :: "env \<Rightarrow> ORTModel \<Rightarrow> (string \<times> ndarray) list \<Rightarrow> error + ndarray list" where
  "run E a inputs =
     (case model a of None \<Rightarrow> Inl (AttributeError ''run'') | Some s \<Rightarrow> ort_run E s inputs)"

text \<open>\<open>torch.from_numpy(outputs[self.model_outputs[k]])\<close>.\<close>

definition output_at :: "ORTModel \<Rightarrow> ndarray list \<Rightarrow> string \<Rightarrow> error + tensor" where
  "output_at a outputs k =
     (case model_outputs a of
        None \<Rightarrow> Inl (AttributeError ''model_outputs'')
      | Some d \<Rightarrow>
          (case d k of
             None \<Rightarrow> Inl (KeyError k)
           | Some idx \<Rightarrow>
               if idx < length outputs then Inr (from_numpy (outputs ! idx)) else Inl IndexError))"

text \<open>The result structure each class builds from the engine's positional outputs.\<close>

fun wrap_outputs :: "adapter_class \<Rightarrow> ORTModel \<Rightarrow> ndarray list \<Rightarrow> error + model_output" where
  "wrap_outputs ORTModel_base a outputs = Inl NotImplementedError"
| "wrap_outputs ORTModelForFeatureExtraction a outputs =
     (case output_at a outputs ''last_hidden_state'' of
        Inl e \<Rightarrow> Inl e | Inr t \<Rightarrow> Inr (BaseModelOutput t))"
| "wrap_outputs ORTModelForQuestionAnswering a outputs =
     (case output_at a outputs ''start_logits'' of
        Inl e \<Rightarrow> Inl e
      | Inr t1 \<Rightarrow>
          (case output_at a outputs ''end_logits'' of
             Inl e \<Rightarrow> Inl e | Inr t2 \<Rightarrow> Inr (QuestionAnsweringModelOutput t1 t2)))"
| "wrap_outputs ORTModelForSequenceClassification a outputs =
     (case output_at a outputs ''logits'' of
        Inl e \<Rightarrow> Inl e | Inr t \<Rightarrow> Inr (SequenceClassifierOutput t))"
| "wrap_outputs ORTModelForTokenClassification a outputs =
     (case output_at a outputs ''logits'' of
        Inl e \<Rightarrow> Inl e | Inr t \<Rightarrow> Inr (TokenClassifierOutput t))"
| "wrap_outputs ORTModelForCausalLM a outputs =
     (case output_at a outputs ''logits'' of
        Inl e \<Rightarrow> Inl e | Inr t \<Rightarrow> Inr (CausalLMOutputWithCrossAttentions t))"

text \<open>
  \<open>forward\<close> of the class of the instance: \<open>ORTModel.forward\<close> raises
  \<open>NotImplementedError\<close>; every subclass builds the inputs, runs the session and wraps
  the outputs.
\<close>

definition forward ::
  "env \<Rightarrow> ORTModel \<Rightarrow> tensor option \<Rightarrow> tensor option \<Rightarrow> tensor option \<Rightarrow> error + model_output" where
  "forward E a input_ids attention_mask token_type_ids =
     (if cls a = ORTModel_base then Inl NotImplementedError
      else
        (case onnx_inputs (cls a) input_ids attention_mask token_type_ids of
           Inl e \<Rightarrow> Inl e
         | Inr inputs \<Rightarrow>
             (case run E a inputs of
                Inl e \<Rightarrow> Inl e
              | Inr outputs \<Rightarrow> wrap_outputs (cls a) a outputs)))"

text \<open>The output names each task reads.\<close>

fun required_outputs :: "adapter_class \<Rightarrow> string list" where
  "required_outputs ORTModel_base = []"
| "required_outputs ORTModelForFeatureExtraction = [''last_hidden_state'']"
| "required_outputs ORTModelForQuestionAnswering = [''start_logits'', ''end_logits'']"
| "required_outputs ORTModelForSequenceClassification = [''logits'']"
| "required_outputs ORTModelForTokenClassification = [''logits'']"
| "required_outputs ORTModelForCausalLM = [''logits'']"

section \<open>A sample environment\<close>

text \<open>
  Concrete tools, files and objects on which the theorems below are instantiated: a
  registry that knows \<open>bert\<close> only, an optimizer and a quantizer that change the body of
  the graph, an engine that accepts every graph, and a directory \<open>m\<close> holding a
  classifier graph as \<open>model.onnx\<close> and an encoder graph as \<open>other.onnx\<close>.
\<close>

definition classifier_graph :: onnx_model where
  "classifier_graph =
     \<lparr>graph_inputs = [''input_ids'', ''attention_mask''], graph_outputs = [''logits''],
      graph_body = 0\<rparr>"

definition encoder_graph :: onnx_model where
  "encoder_graph =
     \<lparr>graph_inputs = [''input_ids'', ''attention_mask''],
      graph_outputs = [''last_hidden_state''], graph_body = 7\<rparr>"

definition bert_config :: PretrainedConfig where
  "bert_config =
     \<lparr>model_type = ''bert'',
      attributes = [''num_attention_heads'' \<mapsto> 12, ''hidden_size'' \<mapsto> 768]\<rparr>"

definition t5_config :: PretrainedConfig where
  "t5_config = \<lparr>model_type = ''t5'', attributes = [''num_heads'' \<mapsto> 8, ''d_model'' \<mapsto> 512]\<rparr>"

definition sample_env :: env where
  "sample_env =
     \<lparr>default_cache_path = [''cache''],
      ONNX_WEIGHTS_NAME = ''model.onnx'',
      OPTIMIZED_ONNX_WEIGHTS_NAME = ''optimized_model.onnx'',
      QUANTIZED_ONNX_WEIGHTS_NAME = ''q8_model.onnx'',
      is_gpu_available = False,
      conf = [''bert'' \<mapsto> (''num_attention_heads'', ''hidden_size'', ''bert'')],
      from_dict = (\<lambda>d. \<lparr>model_type = ''bert'', attributes = d\<rparr>),
      ort_optimize_model = (\<lambda>args m. Inr (m\<lparr>graph_body := Suc (graph_body m)\<rparr>)),
      ort_convert_float_to_float16 = (\<lambda>m. Inr m),
      ort_quantizer_init = (\<lambda>args. None),
      ort_quantize_model = (\<lambda>args. Inr ((q_model args)\<lparr>graph_body := 100\<rparr>)),
      ort_session_init = (\<lambda>m provider. None),
      ort_run = (\<lambda>s inputs. Inr (map (\<lambda>n. NDArray [1, 2] [0, 0]) (get_outputs s))),
      hub_fetch = (\<lambda>req files. Inl (ExternalError ''offline''))\<rparr>"

definition gpu_env :: env where
  "gpu_env = sample_env\<lparr>is_gpu_available := True\<rparr>"

definition sample_optimization_config :: OptimizationConfig where
  "sample_optimization_config =
     \<lparr>optimization_level = 99, optimize_for_gpu = False,
      optimize_with_onnxruntime_only = False, fusion_toggles = [],
      cfg_model_type = None\<rparr>"

definition sample_quantization_config :: QuantizationConfig where
  "sample_quantization_config =
     \<lparr>is_static = False, per_channel = False, mode = IntegerOps,
      weights_dtype = QInt8, activations_dtype = QUInt8, reduce_range = False,
      nodes_to_quantize = [], nodes_to_exclude = [''skip''],
      operators_to_quantize = [ORTQuantizableOperator ''MatMul'', OperatorName ''Add''],
      weights_symmetric = True, activations_symmetric = False\<rparr>"

definition static_quantization_config :: QuantizationConfig where
  "static_quantization_config = sample_quantization_config\<lparr>is_static := True\<rparr>"

definition no_kwargs :: kwargs where
  "no_kwargs = \<lparr>kw_config = None, kw_model_save_dir = None, kw_latest_model_name = None\<rparr>"

definition cpu_session :: "onnx_model \<Rightarrow> session" where
  "cpu_session g = \<lparr>session_model = g, session_provider = ''CPUExecutionProvider''\<rparr>"

text \<open>
  Three adapter objects: at reference 0 a sequence classifier loaded from \<open>m/model.onnx\<close>; at 1
  the result of \<open>ORTModel(config=t5_config)\<close>, which has no save directory; at 2 the
  classifier with a configuration of a model type that the registry does not know.
  The configuration object at reference 1 asks for optimization level 1, every other
  one for level 99.
\<close>

definition sample_adapter :: ORTModel where
  "sample_adapter =
     \<lparr>cls = ORTModelForSequenceClassification,
      model = Some (cpu_session classifier_graph),
      config = Some bert_config,
      model_save_dir = Some [''m''],
      latest_model_name = ''model.onnx'',
      model_outputs = Some (name_index [''logits'']),
      model_inputs = Some (name_index [''input_ids'', ''attention_mask'']),
      main_input_name = None\<rparr>"

definition sample_world :: world where
  "sample_world =
     \<lparr>fs = [[''m'', ''model.onnx''] \<mapsto> classifier_graph,
            [''m'', ''other.onnx''] \<mapsto> encoder_graph],
      dirs = {[''m''], [''cache''], [''out'']},
      calls = [],
      adapters = (\<lambda>r. sample_adapter)
        (1 := ORTModel_init ORTModel_base None (Some t5_config) no_kwargs,
         2 := sample_adapter\<lparr>config := Some t5_config\<rparr>),
      opt_configs = (\<lambda>r. sample_optimization_config)
        (1 := sample_optimization_config\<lparr>optimization_level := 1\<rparr>),
      next_ref = 3\<rparr>"

text \<open>The sample world after \<open>optimize\<close> has run once on the classifier.\<close>

definition once_optimized :: world where
  "once_optimized = snd (optimize sample_env 0 (Some 0) [] sample_world)"

text \<open>
  The world after a second \<open>optimize\<close>, with the configuration object at reference 1.
\<close>

definition twice_optimized :: world where
  "twice_optimized = snd (optimize sample_env 0 (Some 1) [] once_optimized)"

text \<open>The sample world after \<open>quantize\<close> has run once on the classifier.\<close>

definition once_quantized :: world where
  "once_quantized = snd (quantize sample_env 0 sample_quantization_config [] sample_world)"

text \<open>
  A tensor of shape \<open>(1, 8)\<close>, and three more worlds: after loading \<open>m/other.onnx\<close>
  into a new feature-extraction adapter (reference 3), after saving that adapter to
  \<open>out/copy.onnx\<close>, and after loading \<open>out/copy.onnx\<close> into another new adapter
  (reference 4).
\<close>

definition sample_tensor :: tensor where
  "sample_tensor = Tensor [1, 8] [101, 7592, 1010, 2026, 3899, 2003, 10140, 102]"

definition loaded_other :: world where
  "loaded_other =
     snd (ORTModel_from_pretrained sample_env ORTModelForFeatureExtraction [''m''] None None True
            None (Some ''other.onnx'') no_kwargs sample_world)"

definition saved_copy :: world where
  "saved_copy = snd (ORTModel_save_pretrained sample_env 3 [''out''] (Some ''copy.onnx'') loaded_other)"

definition reloaded_copy :: world where
  "reloaded_copy =
     snd (ORTModel_from_pretrained sample_env ORTModelForFeatureExtraction [''out''] None None True
            None (Some ''copy.onnx'') no_kwargs saved_copy)"

section \<open>Basic facts\<close>

lemma parent_joinpath: "parent (joinpath d n) = d"
  by (simp add: parent_def joinpath_def)

lemma path_name_joinpath: "path_name (joinpath d n) = n"
  by (simp add: path_name_def joinpath_def)

lemma and_then_Inr:
  "and_then r f = (Inr y, w') \<longleftrightarrow> (\<exists>x w1. r = (Inr x, w1) \<and> f x w1 = (Inr y, w'))"
  by (auto simp: and_then_def split: prod.splits sum.splits)

lemma raise_or_Inr:
  "raise_or r w f = (Inr y, w') \<longleftrightarrow> (\<exists>x. r = Inr x \<and> f x = (Inr y, w'))"
  by (auto simp: raise_or_def split: sum.splits)

text \<open>The definitions that evaluate a call on the sample environment.\<close>

lemmas sample_defs = sample_env_def sample_world_def sample_adapter_def bert_config_def
  t5_config_def sample_optimization_config_def sample_quantization_config_def
  classifier_graph_def encoder_graph_def cpu_session_def no_kwargs_def gpu_env_def
  static_quantization_config_def

lemmas run_defs = optimize_def quantize_def raise_or_def and_then_def repoint_def load_model_def
  default_provider_def InferenceSession_def save_model_to_file_def onnx_load_def copyfile_def
  optimize_model_def convert_float_to_float16_def ONNXQuantizer_def quantize_model_def
  hf_hub_download_def called_def current_artifact_path_def check_supported_model_or_raise_def
  get_num_heads_name_def get_hidden_size_name_def get_model_ort_type_def getattr_def
  joinpath_def parent_def path_name_def ORTModel_init_def new_instance_def
  ORTModel_from_pretrained_def ORTModel_save_pretrained_def Let_def

subsection \<open>When a step succeeds\<close>

lemma save_model_to_file_Inr:
  "save_model_to_file m p w = (Inr u, w') \<longleftrightarrow>
     parent p \<in> dirs w \<and> w' = (called (Call_save_model_to_file p) w)\<lparr>fs := (fs w)(p \<mapsto> m)\<rparr>"
  by (auto simp: save_model_to_file_def called_def Let_def)

lemma load_model_Inr:
  "load_model E p None w = (Inr s, w') \<longleftrightarrow>
     (\<exists>m. fs w p = Some m
        \<and> ort_session_init E m (default_provider E) = None
        \<and> s = \<lparr>session_model = m, session_provider = default_provider E\<rparr>
        \<and> w' = called (Call_InferenceSession p (default_provider E)) w)"
  by (auto simp: load_model_def InferenceSession_def called_def Let_def split: option.splits)

lemma repoint_Inr:
  "repoint E self p w = (Inr r, w') \<longleftrightarrow>
     (\<exists>s w1. load_model E p None w = (Inr s, w1) \<and> r = self
        \<and> w' = w1\<lparr>adapters := (adapters w1)(self := (adapters w1 self)
                 \<lparr>model := Some s, model_save_dir := Some (parent p),
                  latest_model_name := path_name p\<rparr>)\<rparr>)"
  by (auto simp: repoint_def and_then_Inr)

lemma optimize_model_Inr:
  "optimize_model E args w = (Inr m', w') \<longleftrightarrow>
     (\<exists>m. fs w (arg_input args) = Some m \<and> ort_optimize_model E args m = Inr m'
        \<and> w' = called (Call_optimize_model args) w)"
  by (auto simp: optimize_model_def called_def Let_def split: option.splits)

lemma convert_float_to_float16_Inr:
  "convert_float_to_float16 E m w = (Inr m', w') \<longleftrightarrow>
     ort_convert_float_to_float16 E m = Inr m' \<and> w' = called Call_convert_float_to_float16 w"
  by (auto simp: convert_float_to_float16_def)

lemma onnx_load_Inr:
  "onnx_load p w = (Inr m, w') \<longleftrightarrow> fs w p = Some m \<and> w' = called (Call_onnx_load p) w"
  by (auto simp: onnx_load_def called_def Let_def split: option.splits)

lemma ONNXQuantizer_Inr:
  "ONNXQuantizer E args w = (Inr q, w') \<longleftrightarrow>
     ort_quantizer_init E args = None \<and> q = args \<and> w' = called (Call_ONNXQuantizer args) w"
  by (auto simp: ONNXQuantizer_def called_def Let_def split: option.splits)

lemma quantize_model_Inr:
  "quantize_model E q w = (Inr m, w') \<longleftrightarrow>
     ort_quantize_model E q = Inr m \<and> w' = called Call_quantize_model w"
  by (auto simp: quantize_model_def)

lemma option_to_sum_Inr:
  "(case x of None \<Rightarrow> Inl e | Some c \<Rightarrow> Inr c) = Inr y \<longleftrightarrow> x = Some y"
  by (cases x) auto

lemma registry_Inr:
  "check_supported_model_or_raise E mt = Inr u \<longleftrightarrow> conf E mt \<noteq> None"
  "get_num_heads_name E mt = Inr h \<longleftrightarrow> (\<exists>s t. conf E mt = Some (h, s, t))"
  "get_hidden_size_name E mt = Inr s \<longleftrightarrow> (\<exists>h t. conf E mt = Some (h, s, t))"
  "get_model_ort_type E mt = Inr t \<longleftrightarrow> (\<exists>h s. conf E mt = Some (h, s, t))"
  by (auto simp: check_supported_model_or_raise_def get_num_heads_name_def
      get_hidden_size_name_def get_model_ort_type_def split: option.splits)

lemma getattr_Inr: "getattr c n = Inr v \<longleftrightarrow> attributes c n = Some v"
  by (auto simp: getattr_def split: option.splits)

lemma current_artifact_path_Inr:
  "current_artifact_path a = Inr p \<longleftrightarrow>
     (\<exists>d. model_save_dir a = Some d \<and> p = joinpath d (latest_model_name a))"
  by (auto simp: current_artifact_path_def split: option.splits)

subsection \<open>When \<open>optimize\<close> and \<open>quantize\<close> succeed\<close>

text \<open>
  A successful call determines the world it leaves: one file written, the calls to the
  external tools in order, the instance repointed, and for \<open>optimize\<close> the caller's
  configuration object with its \<open>model_type\<close> assigned.
\<close>

lemma optimize_Inr:
  assumes "optimize E self oc out w = (Inr r, w')"
  shows "\<exists>d c hn sn t nh hs ref args m m1 m2.
    model_save_dir (adapters w self) = Some d
    \<and> config (adapters w self) = Some c
    \<and> conf E (model_type c) = Some (hn, sn, t)
    \<and> attributes c hn = Some nh
    \<and> attributes c sn = Some hs
    \<and> oc = Some ref
    \<and> args = \<lparr>arg_input = joinpath d (latest_model_name (adapters w self)),
               arg_model_type = t, arg_num_heads = nh, arg_hidden_size = hs,
               arg_opt_level = optimization_level (opt_configs w ref),
               arg_use_gpu = optimize_for_gpu (opt_configs w ref),
               arg_optimization_options =
                 FusionOptions_parse ((opt_configs w ref)\<lparr>cfg_model_type := Some t\<rparr>),
               arg_only_onnxruntime = optimize_with_onnxruntime_only (opt_configs w ref)\<rparr>
    \<and> fs w (joinpath d (latest_model_name (adapters w self))) = Some m
    \<and> ort_optimize_model E args m = Inr m1
    \<and> (if is_gpu_available E then ort_convert_float_to_float16 E m1 = Inr m2 else m2 = m1)
    \<and> default_cache_path E \<in> dirs w
    \<and> ort_session_init E m2 (default_provider E) = None
    \<and> r = self
    \<and> fs w' = (fs w)(joinpath (default_cache_path E) (OPTIMIZED_ONNX_WEIGHTS_NAME E) \<mapsto> m2)
    \<and> dirs w' = dirs w
    \<and> calls w' = calls w @ [Call_optimize_model args]
         @ (if is_gpu_available E then [Call_convert_float_to_float16] else [])
         @ [Call_save_model_to_file (joinpath (default_cache_path E) (OPTIMIZED_ONNX_WEIGHTS_NAME E)),
            Call_InferenceSession (joinpath (default_cache_path E) (OPTIMIZED_ONNX_WEIGHTS_NAME E))
              (default_provider E)]
    \<and> adapters w' = (adapters w)(self := (adapters w self)
         \<lparr>model := Some \<lparr>session_model = m2, session_provider = default_provider E\<rparr>,
          model_save_dir := Some (default_cache_path E),
          latest_model_name := OPTIMIZED_ONNX_WEIGHTS_NAME E\<rparr>)
    \<and> opt_configs w' = (opt_configs w)(ref := (opt_configs w ref)\<lparr>cfg_model_type := Some t\<rparr>)
    \<and> next_ref w' = next_ref w"
proof (cases "is_gpu_available E")
  case True
  with assms show ?thesis
    unfolding optimize_def Let_def
    by (auto simp: raise_or_Inr and_then_Inr option_to_sum_Inr registry_Inr getattr_Inr
        current_artifact_path_Inr optimize_model_Inr convert_float_to_float16_Inr
        save_model_to_file_Inr repoint_Inr load_model_Inr parent_joinpath path_name_joinpath
        called_def)
next
  case False
  with assms show ?thesis
    unfolding optimize_def Let_def
    by (auto simp: raise_or_Inr and_then_Inr option_to_sum_Inr registry_Inr getattr_Inr
        current_artifact_path_Inr optimize_model_Inr save_model_to_file_Inr repoint_Inr
        load_model_Inr parent_joinpath path_name_joinpath called_def)
qed

lemma quantize_Inr:
  assumes "quantize E self qc out w = (Inr r, w')"
  shows "\<exists>d args m m2.
    \<not> is_static qc \<and> \<not> is_gpu_available E
    \<and> model_save_dir (adapters w self) = Some d
    \<and> fs w (joinpath d (latest_model_name (adapters w self))) = Some m
    \<and> args = \<lparr>q_model = m, q_static = is_static qc, q_per_channel = per_channel qc,
               q_mode = mode qc, q_weight_qType = weights_dtype qc,
               q_input_qType = activations_dtype qc, q_reduce_range = reduce_range qc,
               q_nodes_to_quantize = nodes_to_quantize qc,
               q_nodes_to_exclude = nodes_to_exclude qc,
               q_op_types_to_quantize = map op_type (operators_to_quantize qc),
               q_extra_options =
                 \<lparr>WeightSymmetric = weights_symmetric qc,
                  ActivationSymmetric = activations_symmetric qc,
                  EnableSubgraph = False,
                  ForceSymmetric = (activations_symmetric qc \<and> weights_symmetric qc)\<rparr>\<rparr>
    \<and> ort_quantizer_init E args = None
    \<and> ort_quantize_model E args = Inr m2
    \<and> default_cache_path E \<in> dirs w
    \<and> ort_session_init E m2 (default_provider E) = None
    \<and> r = self
    \<and> fs w' = (fs w)(joinpath (default_cache_path E) (QUANTIZED_ONNX_WEIGHTS_NAME E) \<mapsto> m2)
    \<and> dirs w' = dirs w
    \<and> calls w' = calls w @
         [Call_onnx_load (joinpath d (latest_model_name (adapters w self))),
          Call_ONNXQuantizer args, Call_quantize_model,
          Call_save_model_to_file (joinpath (default_cache_path E) (QUANTIZED_ONNX_WEIGHTS_NAME E)),
          Call_InferenceSession (joinpath (default_cache_path E) (QUANTIZED_ONNX_WEIGHTS_NAME E))
            (default_provider E)]
    \<and> adapters w' = (adapters w)(self := (adapters w self)
         \<lparr>model := Some \<lparr>session_model = m2, session_provider = default_provider E\<rparr>,
          model_save_dir := Some (default_cache_path E),
          latest_model_name := QUANTIZED_ONNX_WEIGHTS_NAME E\<rparr>)
    \<and> opt_configs w' = opt_configs w
    \<and> next_ref w' = next_ref w"
  using assms
  unfolding quantize_def Let_def
  by (auto simp: raise_or_Inr and_then_Inr current_artifact_path_Inr onnx_load_Inr
      ONNXQuantizer_Inr quantize_model_Inr save_model_to_file_Inr repoint_Inr load_model_Inr
      parent_joinpath path_name_joinpath called_def split: if_splits)


subsection \<open>Which file a call reads\<close>

lemma construct_fields:
  assumes "construct c m cfg kw = Inr a"
  shows "cls a = c \<and> model a = m \<and> config a = cfg \<and> model_save_dir a = kw_model_save_dir kw
    \<and> latest_model_name a = (case kw_latest_model_name kw of None \<Rightarrow> ''model.onnx'' | Some n \<Rightarrow> n)"
  using assms by (cases c) (auto simp: ORTModel_init_def split: option.splits)

lemma save_pretrained_source:
  assumes "current_artifact_path (adapters w self) = Inr p"
  shows "ORTModel_save_pretrained E self D fn w
         = copyfile p (joinpath D (case fn of Some x \<Rightarrow> x | None \<Rightarrow> ONNX_WEIGHTS_NAME E)) w"
  using assms by (simp add: ORTModel_save_pretrained_def raise_or_def)

lemma quantize_first_call:
  assumes "current_artifact_path (adapters w self) = Inr p"
    and "quantize E self qc out w = (res, w')"
  shows "calls w' = calls w \<or> take 1 (drop (length (calls w)) (calls w')) = [Call_onnx_load p]"
  using assms
  by (auto simp: quantize_def raise_or_def and_then_def repoint_def load_model_def
      InferenceSession_def save_model_to_file_def onnx_load_def ONNXQuantizer_def
      quantize_model_def called_def Let_def split: option.splits sum.splits if_splits)

lemma optimize_first_call:
  assumes "current_artifact_path (adapters w self) = Inr p"
    and "optimize E self oc out w = (res, w')"
  shows "calls w' = calls w
     \<or> (\<exists>args. take 1 (drop (length (calls w)) (calls w')) = [Call_optimize_model args]
           \<and> arg_input args = p)"
  using assms
  by (auto simp: optimize_def raise_or_def and_then_def repoint_def load_model_def
      InferenceSession_def save_model_to_file_def optimize_model_def
      convert_float_to_float16_def called_def Let_def
      split: option.splits sum.splits if_splits)

subsection \<open>The sample runs\<close>

lemma optimize_sample: "optimize sample_env 0 (Some 0) [] sample_world = (Inr 0, once_optimized)"
  by (simp add: once_optimized_def prod_eq_iff run_defs sample_defs)

lemma quantize_sample:
  "quantize sample_env 0 sample_quantization_config [] sample_world = (Inr 0, once_quantized)"
  by (simp add: once_quantized_def prod_eq_iff run_defs sample_defs)

lemma optimize_again_sample:
  "optimize sample_env 0 (Some 1) [] once_optimized = (Inr 0, twice_optimized)"
  by (simp add: twice_optimized_def once_optimized_def prod_eq_iff run_defs sample_defs)

lemma from_pretrained_sample:
  "ORTModel_from_pretrained sample_env ORTModelForFeatureExtraction [''m''] None None True
     None (Some ''other.onnx'') no_kwargs sample_world = (Inr 3, loaded_other)"
  by (simp add: loaded_other_def prod_eq_iff run_defs sample_defs)

section \<open>Supersession of the current artifact\<close>

text \<open>
  C1, as amended. After a successful call to \<open>optimize\<close> or to \<open>quantize\<close>, the call
  returns the reference it was called on; \<open>model_save_dir\<close> and \<open>latest_model_name\<close> of
  the instance are the directory and the name of the output file
  (\<open>default_cache_path\<close> joined with the optimized, respectively quantized, weights
  name); the session of the instance is the one that loading that file gives; the file
  that was the current artifact before the call existed, and it still exists with the
  same content unless it is the output file itself; and no file other than the output
  file has been created, deleted or modified.
\<close>

theorem supersession:
  "(optimize E self oc out w = (Inr r, w') \<longrightarrow>
      r = self
      \<and> model_save_dir (adapters w' self) = Some (default_cache_path E)
      \<and> latest_model_name (adapters w' self) = OPTIMIZED_ONNX_WEIGHTS_NAME E
      \<and> (\<exists>s. fst (load_model E (joinpath (default_cache_path E) (OPTIMIZED_ONNX_WEIGHTS_NAME E))
                     None w') = Inr s
             \<and> model (adapters w' self) = Some s)
      \<and> (\<exists>old m. current_artifact_path (adapters w self) = Inr old \<and> fs w old = Some m
             \<and> (old \<noteq> joinpath (default_cache_path E) (OPTIMIZED_ONNX_WEIGHTS_NAME E)
                  \<longrightarrow> fs w' old = Some m))
      \<and> (\<forall>p. p \<noteq> joinpath (default_cache_path E) (OPTIMIZED_ONNX_WEIGHTS_NAME E)
             \<longrightarrow> fs w' p = fs w p))
   \<and> (quantize E self qc out w = (Inr r, w') \<longrightarrow>
      r = self
      \<and> model_save_dir (adapters w' self) = Some (default_cache_path E)
      \<and> latest_model_name (adapters w' self) = QUANTIZED_ONNX_WEIGHTS_NAME E
      \<and> (\<exists>s. fst (load_model E (joinpath (default_cache_path E) (QUANTIZED_ONNX_WEIGHTS_NAME E))
                     None w') = Inr s
             \<and> model (adapters w' self) = Some s)
      \<and> (\<exists>old m. current_artifact_path (adapters w self) = Inr old \<and> fs w old = Some m
             \<and> (old \<noteq> joinpath (default_cache_path E) (QUANTIZED_ONNX_WEIGHTS_NAME E)
                  \<longrightarrow> fs w' old = Some m))
      \<and> (\<forall>p. p \<noteq> joinpath (default_cache_path E) (QUANTIZED_ONNX_WEIGHTS_NAME E)
             \<longrightarrow> fs w' p = fs w p))"
proof (intro conjI impI)
  assume a: "optimize E self oc out w = (Inr r, w')"
  from optimize_Inr [OF a] obtain d m m2 where
    h: "model_save_dir (adapters w self) = Some d"
       "fs w (joinpath d (latest_model_name (adapters w self))) = Some m"
       "ort_session_init E m2 (default_provider E) = None"
       "r = self"
       "fs w' = (fs w)(joinpath (default_cache_path E) (OPTIMIZED_ONNX_WEIGHTS_NAME E) \<mapsto> m2)"
       "adapters w' = (adapters w)(self := (adapters w self)
         \<lparr>model := Some \<lparr>session_model = m2, session_provider = default_provider E\<rparr>,
          model_save_dir := Some (default_cache_path E),
          latest_model_name := OPTIMIZED_ONNX_WEIGHTS_NAME E\<rparr>)"
    by (elim exE conjE) (rule that, assumption+)
  show "r = self" using h by simp
  show "model_save_dir (adapters w' self) = Some (default_cache_path E)" using h by simp
  show "latest_model_name (adapters w' self) = OPTIMIZED_ONNX_WEIGHTS_NAME E" using h by simp
  show "\<exists>s. fst (load_model E (joinpath (default_cache_path E) (OPTIMIZED_ONNX_WEIGHTS_NAME E))
                     None w') = Inr s
             \<and> model (adapters w' self) = Some s"
    using h by (simp add: load_model_def InferenceSession_def called_def Let_def)
  show "\<exists>old m. current_artifact_path (adapters w self) = Inr old \<and> fs w old = Some m
             \<and> (old \<noteq> joinpath (default_cache_path E) (OPTIMIZED_ONNX_WEIGHTS_NAME E)
                  \<longrightarrow> fs w' old = Some m)"
    using h by (auto simp: current_artifact_path_def)
  show "\<forall>p. p \<noteq> joinpath (default_cache_path E) (OPTIMIZED_ONNX_WEIGHTS_NAME E)
             \<longrightarrow> fs w' p = fs w p"
    using h by simp
next
  assume a: "quantize E self qc out w = (Inr r, w')"
  from quantize_Inr [OF a] obtain d m m2 where
    h: "model_save_dir (adapters w self) = Some d"
       "fs w (joinpath d (latest_model_name (adapters w self))) = Some m"
       "ort_session_init E m2 (default_provider E) = None"
       "r = self"
       "fs w' = (fs w)(joinpath (default_cache_path E) (QUANTIZED_ONNX_WEIGHTS_NAME E) \<mapsto> m2)"
       "adapters w' = (adapters w)(self := (adapters w self)
         \<lparr>model := Some \<lparr>session_model = m2, session_provider = default_provider E\<rparr>,
          model_save_dir := Some (default_cache_path E),
          latest_model_name := QUANTIZED_ONNX_WEIGHTS_NAME E\<rparr>)"
    by (elim exE conjE) (rule that, assumption+)
  show "r = self" using h by simp
  show "model_save_dir (adapters w' self) = Some (default_cache_path E)" using h by simp
  show "latest_model_name (adapters w' self) = QUANTIZED_ONNX_WEIGHTS_NAME E" using h by simp
  show "\<exists>s. fst (load_model E (joinpath (default_cache_path E) (QUANTIZED_ONNX_WEIGHTS_NAME E))
                     None w') = Inr s
             \<and> model (adapters w' self) = Some s"
    using h by (simp add: load_model_def InferenceSession_def called_def Let_def)
  show "\<exists>old m. current_artifact_path (adapters w self) = Inr old \<and> fs w old = Some m
             \<and> (old \<noteq> joinpath (default_cache_path E) (QUANTIZED_ONNX_WEIGHTS_NAME E)
                  \<longrightarrow> fs w' old = Some m)"
    using h by (auto simp: current_artifact_path_def)
  show "\<forall>p. p \<noteq> joinpath (default_cache_path E) (QUANTIZED_ONNX_WEIGHTS_NAME E)
             \<longrightarrow> fs w' p = fs w p"
    using h by simp
qed

theorem supersession_witness:
  "optimize sample_env 0 (Some 0) [] sample_world = (Inr 0, once_optimized)
   \<and> model_save_dir (adapters once_optimized 0) = Some [''cache'']
   \<and> latest_model_name (adapters once_optimized 0) = ''optimized_model.onnx''
   \<and> fs once_optimized [''m'', ''model.onnx''] = fs sample_world [''m'', ''model.onnx'']
   \<and> quantize sample_env 0 sample_quantization_config [] sample_world = (Inr 0, once_quantized)
   \<and> model_save_dir (adapters once_quantized 0) = Some [''cache'']
   \<and> latest_model_name (adapters once_quantized 0) = ''q8_model.onnx''
   \<and> fs once_quantized [''m'', ''model.onnx''] = fs sample_world [''m'', ''model.onnx'']"
  using supersession [of sample_env 0 "Some 0" "[]" sample_world 0 once_optimized
      sample_quantization_config]
    supersession [of sample_env 0 "Some 0" "[]" sample_world 0 once_quantized
      sample_quantization_config]
    optimize_sample quantize_sample
  by (simp add: sample_env_def joinpath_def)

text \<open>
  C1 as stated fails when the current artifact already is the output file: a second
  \<open>optimize\<close> reads \<open>cache/optimized_model.onnx\<close> and overwrites it.
\<close>

theorem supersession_overwrites_current_artifact:
  "fst (optimize sample_env 0 (Some 0) [] once_optimized) = Inr 0
   \<and> current_artifact_path (adapters once_optimized 0) = Inr [''cache'', ''optimized_model.onnx'']
   \<and> fs once_optimized [''cache'', ''optimized_model.onnx'']
       = Some \<lparr>graph_inputs = [''input_ids'', ''attention_mask''], graph_outputs = [''logits''],
               graph_body = 1\<rparr>
   \<and> fs (snd (optimize sample_env 0 (Some 0) [] once_optimized)) [''cache'', ''optimized_model.onnx'']
       = Some \<lparr>graph_inputs = [''input_ids'', ''attention_mask''], graph_outputs = [''logits''],
               graph_body = 2\<rparr>"
  by (simp add: once_optimized_def run_defs sample_defs)


section \<open>Guards of \<open>quantize\<close>\<close>

text \<open>
  C2. For every quantization configuration whose \<open>is_static\<close> flag is true, and
  likewise for every call made while accelerated hardware is reported present,
  \<open>quantize\<close> raises a \<open>ValueError\<close> and leaves the whole world as it was: the adapter
  object (session handle, \<open>model_save_dir\<close>, \<open>latest_model_name\<close>), the files, and the
  trace of calls to external tools, so that the quantizer has been neither constructed
  nor invoked.
\<close>

theorem quantize_guards:
  assumes "is_static quantization_config \<or> is_gpu_available E"
  shows "\<exists>msg. quantize E self quantization_config output_path w = (Inl (ValueError msg), w)"
  using assms by (auto simp: quantize_def)

theorem quantize_guards_witness:
  "is_static static_quantization_config
   \<and> fst (quantize sample_env 0 static_quantization_config [] sample_world)
       = Inl (ValueError ''Static Quantization is not yet supported, please us ORTQuantizer.'')
   \<and> snd (quantize sample_env 0 static_quantization_config [] sample_world) = sample_world
   \<and> is_gpu_available gpu_env
   \<and> fst (quantize gpu_env 0 sample_quantization_config [] sample_world)
       = Inl (ValueError ''GPU is not supported for quantization'')
   \<and> snd (quantize gpu_env 0 sample_quantization_config [] sample_world) = sample_world"
proof -
  have s: "is_static static_quantization_config \<or> is_gpu_available sample_env"
    by (simp add: static_quantization_config_def)
  have g: "is_static sample_quantization_config \<or> is_gpu_available gpu_env"
    by (simp add: gpu_env_def)
  show ?thesis
    using quantize_guards [OF s, of 0 "[]" sample_world]
      quantize_guards [OF g, of 0 "[]" sample_world]
    by (auto simp: quantize_def static_quantization_config_def gpu_env_def
        sample_quantization_config_def)
qed

section \<open>The registry check of \<open>optimize\<close>\<close>

text \<open>
  C3, as amended. For every adapter whose configuration's model type is absent from the
  registry, \<open>optimize\<close> raises an error and leaves the whole world as it was (the
  adapter, the caller's configuration object, the files, and the trace of calls to
  external tools, so the optimizer has not been invoked); when the adapter has a save
  directory, the error is the "unsupported model type" error for that model type.
\<close>

theorem unsupported_model_type:
  assumes "config (adapters w self) = Some c" and "conf E (model_type c) = None"
  shows "\<exists>e. optimize E self oc out w = (Inl e, w)
           \<and> (model_save_dir (adapters w self) \<noteq> None \<longrightarrow> e = UnsupportedModelType (model_type c))"
  using assms
  by (auto simp: optimize_def raise_or_def current_artifact_path_def
      check_supported_model_or_raise_def split: option.splits)

theorem unsupported_model_type_witness:
  "config (adapters sample_world 2) = Some t5_config
   \<and> conf sample_env (model_type t5_config) = None
   \<and> model_save_dir (adapters sample_world 2) = Some [''m'']
   \<and> optimize sample_env 2 (Some 0) [] sample_world = (Inl (UnsupportedModelType ''t5''), sample_world)"
proof -
  have c: "config (adapters sample_world 2) = Some t5_config"
    by (simp add: sample_defs)
  have r: "conf sample_env (model_type t5_config) = None"
    by (simp add: sample_defs)
  have d: "model_save_dir (adapters sample_world 2) = Some [''m'']"
    by (simp add: sample_defs)
  from unsupported_model_type [OF c r, of "Some 0" "[]"] d c r show ?thesis
    by (auto simp: t5_config_def)
qed

text \<open>
  C3 as stated fails for an adapter that has no save directory: \<open>optimize\<close> computes
  the input path before it consults the registry, and raises an attribute error there.
\<close>

theorem missing_save_dir_precedes_registry_check:
  "config (adapters sample_world 1) = Some t5_config
   \<and> conf sample_env (model_type t5_config) = None
   \<and> optimize sample_env 1 (Some 0) [] sample_world = (Inl (AttributeError ''joinpath''), sample_world)"
  by (simp add: run_defs sample_defs)

section \<open>The output path\<close>

text \<open>
  C4. The \<open>output_path\<close> argument has no effect on \<open>optimize\<close> or on \<open>quantize\<close>. A
  successful \<open>optimize\<close> changes the files exactly by writing
  \<open>default_cache_path\<close> joined with the optimized weights name, a successful
  \<open>quantize\<close> by writing \<open>default_cache_path\<close> joined with the quantized weights name,
  and the graph written is the one the new session holds. Two \<open>optimize\<close> calls in a
  row, with whatever configurations and \<open>output_path\<close> arguments, write the same file:
  after the second, the files differ from the initial ones at that one path only.
\<close>

theorem fixed_output_path:
  "optimize E self oc out1 w = optimize E self oc out2 w
   \<and> quantize E self qc out1 w = quantize E self qc out2 w
   \<and> (optimize E self oc out1 w = (Inr r, w') \<longrightarrow>
        (\<exists>m. fs w' = (fs w)(joinpath (default_cache_path E) (OPTIMIZED_ONNX_WEIGHTS_NAME E) \<mapsto> m)
            \<and> map_option session_model (model (adapters w' self)) = Some m))
   \<and> (quantize E self qc out1 w = (Inr r, w') \<longrightarrow>
        (\<exists>m. fs w' = (fs w)(joinpath (default_cache_path E) (QUANTIZED_ONNX_WEIGHTS_NAME E) \<mapsto> m)
            \<and> map_option session_model (model (adapters w' self)) = Some m))
   \<and> (optimize E self oc out1 w = (Inr r, w') \<and> optimize E self oc' out2 w' = (Inr r', w'') \<longrightarrow>
        (\<exists>m m'. fs w' = (fs w)(joinpath (default_cache_path E) (OPTIMIZED_ONNX_WEIGHTS_NAME E) \<mapsto> m)
            \<and> fs w'' = (fs w)(joinpath (default_cache_path E) (OPTIMIZED_ONNX_WEIGHTS_NAME E) \<mapsto> m')))"
proof (intro conjI impI)
  show "optimize E self oc out1 w = optimize E self oc out2 w"
    by (simp add: optimize_def)
  show "quantize E self qc out1 w = quantize E self qc out2 w"
    by (simp add: quantize_def)
next
  assume a: "optimize E self oc out1 w = (Inr r, w')"
  from optimize_Inr [OF a]
  show "\<exists>m. fs w' = (fs w)(joinpath (default_cache_path E) (OPTIMIZED_ONNX_WEIGHTS_NAME E) \<mapsto> m)
            \<and> map_option session_model (model (adapters w' self)) = Some m"
    by (elim exE conjE) simp
next
  assume a: "quantize E self qc out1 w = (Inr r, w')"
  from quantize_Inr [OF a]
  show "\<exists>m. fs w' = (fs w)(joinpath (default_cache_path E) (QUANTIZED_ONNX_WEIGHTS_NAME E) \<mapsto> m)
            \<and> map_option session_model (model (adapters w' self)) = Some m"
    by (elim exE conjE) simp
next
  assume a: "optimize E self oc out1 w = (Inr r, w') \<and> optimize E self oc' out2 w' = (Inr r', w'')"
  from a optimize_Inr [of E self oc out1 w r w'] obtain m where
    m: "fs w' = (fs w)(joinpath (default_cache_path E) (OPTIMIZED_ONNX_WEIGHTS_NAME E) \<mapsto> m)"
    by blast
  from a optimize_Inr [of E self oc' out2 w' r' w''] obtain m' where
    m': "fs w'' = (fs w')(joinpath (default_cache_path E) (OPTIMIZED_ONNX_WEIGHTS_NAME E) \<mapsto> m')"
    by blast
  from m m' have
    "fs w'' = (fs w)(joinpath (default_cache_path E) (OPTIMIZED_ONNX_WEIGHTS_NAME E) \<mapsto> m')"
    by simp
  with m show "\<exists>m m'. fs w' = (fs w)(joinpath (default_cache_path E) (OPTIMIZED_ONNX_WEIGHTS_NAME E) \<mapsto> m)
            \<and> fs w'' = (fs w)(joinpath (default_cache_path E) (OPTIMIZED_ONNX_WEIGHTS_NAME E) \<mapsto> m')"
    by blast
qed

theorem fixed_output_path_witness:
  "optimize sample_env 0 (Some 0) [''elsewhere''] sample_world = (Inr 0, once_optimized)
   \<and> optimize sample_env 0 (Some 1) [] once_optimized = (Inr 0, twice_optimized)
   \<and> quantize sample_env 0 sample_quantization_config [''elsewhere''] sample_world
       = (Inr 0, once_quantized)
   \<and> opt_configs sample_world 0 \<noteq> opt_configs sample_world 1
   \<and> (\<exists>m m'. fs once_optimized = (fs sample_world)([''cache'', ''optimized_model.onnx''] \<mapsto> m)
        \<and> fs twice_optimized = (fs sample_world)([''cache'', ''optimized_model.onnx''] \<mapsto> m'))
   \<and> (\<exists>m. fs once_quantized = (fs sample_world)([''cache'', ''q8_model.onnx''] \<mapsto> m))"
proof -
  note t1 = fixed_output_path [where E = sample_env and self = 0 and oc = "Some 0"
      and ?out1.0 = "[''elsewhere'']" and ?out2.0 = "[]" and w = sample_world
      and qc = sample_quantization_config and r = 0 and w' = once_optimized
      and oc' = "Some 1" and r' = 0 and w'' = twice_optimized]
  note t2 = fixed_output_path [where E = sample_env and self = 0 and oc = "Some 0"
      and ?out1.0 = "[''elsewhere'']" and ?out2.0 = "[]" and w = sample_world
      and qc = sample_quantization_config and r = 0 and w' = once_quantized]
  have p: "joinpath (default_cache_path sample_env) (OPTIMIZED_ONNX_WEIGHTS_NAME sample_env)
             = [''cache'', ''optimized_model.onnx'']"
    and q: "joinpath (default_cache_path sample_env) (QUANTIZED_ONNX_WEIGHTS_NAME sample_env)
             = [''cache'', ''q8_model.onnx'']"
    by (simp_all add: sample_env_def joinpath_def)
  have d: "opt_configs sample_world 0 \<noteq> opt_configs sample_world 1"
    by (simp add: sample_defs)
  have o1: "optimize sample_env 0 (Some 0) [''elsewhere''] sample_world = (Inr 0, once_optimized)"
    using t1 optimize_sample by simp
  have k1: "quantize sample_env 0 sample_quantization_config [''elsewhere''] sample_world
              = (Inr 0, once_quantized)"
    using t2 quantize_sample by simp
  have o: "\<exists>m m'. fs once_optimized = (fs sample_world)([''cache'', ''optimized_model.onnx''] \<mapsto> m)
        \<and> fs twice_optimized = (fs sample_world)([''cache'', ''optimized_model.onnx''] \<mapsto> m')"
    using t1 o1 optimize_again_sample unfolding p by blast
  have k: "\<exists>m. fs once_quantized = (fs sample_world)([''cache'', ''q8_model.onnx''] \<mapsto> m)"
    using t2 k1 unfolding q by blast
  show ?thesis
    using o1 optimize_again_sample k1 d o k by blast
qed


section \<open>The arguments of the quantizer\<close>

text \<open>
  C5. For every configuration that is not static, without accelerated hardware and
  with the current artifact on disk, the first two calls that \<open>quantize\<close> makes to
  external tools are \<open>onnx.load\<close> of the current artifact and the construction of the
  quantizer on the loaded graph, with \<open>ForceSymmetric\<close> the conjunction of the
  configuration's \<open>activations_symmetric\<close> and \<open>weights_symmetric\<close>, and the
  per-channel flag, the mode, the weight and activation types, the range flag and the
  node lists as the configuration has them.
\<close>

theorem quantizer_arguments:
  assumes "\<not> is_static qc" and "\<not> is_gpu_available E"
    and "current_artifact_path (adapters w self) = Inr p" and "fs w p = Some m"
  shows "take 2 (drop (length (calls w)) (calls (snd (quantize E self qc out w))))
         = [Call_onnx_load p,
            Call_ONNXQuantizer
              \<lparr>q_model = m, q_static = False, q_per_channel = per_channel qc,
               q_mode = mode qc, q_weight_qType = weights_dtype qc,
               q_input_qType = activations_dtype qc, q_reduce_range = reduce_range qc,
               q_nodes_to_quantize = nodes_to_quantize qc,
               q_nodes_to_exclude = nodes_to_exclude qc,
               q_op_types_to_quantize = map op_type (operators_to_quantize qc),
               q_extra_options =
                 \<lparr>WeightSymmetric = weights_symmetric qc,
                  ActivationSymmetric = activations_symmetric qc,
                  EnableSubgraph = False,
                  ForceSymmetric = (activations_symmetric qc \<and> weights_symmetric qc)\<rparr>\<rparr>]"
  using assms
  by (auto simp: quantize_def raise_or_def and_then_def repoint_def load_model_def
      InferenceSession_def save_model_to_file_def onnx_load_def ONNXQuantizer_def
      quantize_model_def called_def Let_def split: option.splits sum.splits)

theorem quantizer_arguments_witness:
  "\<not> is_static sample_quantization_config \<and> \<not> is_gpu_available sample_env
   \<and> current_artifact_path (adapters sample_world 0) = Inr [''m'', ''model.onnx'']
   \<and> fs sample_world [''m'', ''model.onnx''] = Some classifier_graph
   \<and> take 2 (calls once_quantized)
       = [Call_onnx_load [''m'', ''model.onnx''],
          Call_ONNXQuantizer
            \<lparr>q_model = classifier_graph, q_static = False, q_per_channel = False,
             q_mode = IntegerOps, q_weight_qType = QInt8, q_input_qType = QUInt8,
             q_reduce_range = False, q_nodes_to_quantize = [], q_nodes_to_exclude = [''skip''],
             q_op_types_to_quantize = [''MatMul'', ''Add''],
             q_extra_options =
               \<lparr>WeightSymmetric = True, ActivationSymmetric = False,
                EnableSubgraph = False, ForceSymmetric = False\<rparr>\<rparr>]"
proof -
  have a: "\<not> is_static sample_quantization_config" "\<not> is_gpu_available sample_env"
    "current_artifact_path (adapters sample_world 0) = Inr [''m'', ''model.onnx'']"
    "fs sample_world [''m'', ''model.onnx''] = Some classifier_graph"
    by (simp_all add: sample_defs current_artifact_path_def joinpath_def)
  have c: "calls sample_world = []"
    by (simp add: sample_world_def)
  from quantizer_arguments [OF a, of "[]"] a show ?thesis
    by (simp add: once_quantized_def c sample_quantization_config_def)
qed

section \<open>The caller's optimization configuration\<close>

text \<open>
  C8, as amended. Whatever the outcome of \<open>optimize\<close>, the caller's configuration
  object keeps \<open>optimization_level\<close>, \<open>optimize_for_gpu\<close>,
  \<open>optimize_with_onnxruntime_only\<close> and its fusion toggles, and no other configuration
  object changes. Its \<open>model_type\<close> is either what it was or the optimizer's tag that
  the registry gives for the adapter's model type, and after a successful call it is
  that tag. The attributes of the adapter other than \<open>model\<close>, \<open>model_save_dir\<close> and
  \<open>latest_model_name\<close> are what they were.
\<close>

theorem configuration_after_optimize:
  assumes "optimize E self (Some ref) out w = (res, w')"
  shows "optimization_level (opt_configs w' ref) = optimization_level (opt_configs w ref)
     \<and> optimize_for_gpu (opt_configs w' ref) = optimize_for_gpu (opt_configs w ref)
     \<and> optimize_with_onnxruntime_only (opt_configs w' ref)
         = optimize_with_onnxruntime_only (opt_configs w ref)
     \<and> fusion_toggles (opt_configs w' ref) = fusion_toggles (opt_configs w ref)
     \<and> (\<forall>r'. r' \<noteq> ref \<longrightarrow> opt_configs w' r' = opt_configs w r')
     \<and> (cfg_model_type (opt_configs w' ref) = cfg_model_type (opt_configs w ref)
         \<or> (\<exists>c hn sn t. config (adapters w self) = Some c
               \<and> conf E (model_type c) = Some (hn, sn, t)
               \<and> cfg_model_type (opt_configs w' ref) = Some t))
     \<and> (\<forall>r. res = Inr r \<longrightarrow>
           (\<exists>c hn sn t. config (adapters w self) = Some c
               \<and> conf E (model_type c) = Some (hn, sn, t)
               \<and> cfg_model_type (opt_configs w' ref) = Some t))
     \<and> cls (adapters w' self) = cls (adapters w self)
     \<and> config (adapters w' self) = config (adapters w self)
     \<and> model_outputs (adapters w' self) = model_outputs (adapters w self)
     \<and> model_inputs (adapters w' self) = model_inputs (adapters w self)
     \<and> main_input_name (adapters w' self) = main_input_name (adapters w self)"
  using assms
  by (auto simp: optimize_def raise_or_def and_then_def repoint_def load_model_def
      InferenceSession_def save_model_to_file_def optimize_model_def
      convert_float_to_float16_def called_def Let_def get_num_heads_name_def
      get_hidden_size_name_def get_model_ort_type_def check_supported_model_or_raise_def
      split: option.splits sum.splits if_splits prod.splits)

theorem configuration_after_optimize_witness:
  "optimize sample_env 0 (Some 0) [] sample_world = (Inr 0, once_optimized)
   \<and> optimization_level (opt_configs once_optimized 0) = 99
   \<and> opt_configs once_optimized 1 = opt_configs sample_world 1
   \<and> cfg_model_type (opt_configs once_optimized 0) = Some ''bert''"
  using configuration_after_optimize [OF optimize_sample] optimize_sample
  by (auto simp: sample_defs)

text \<open>
  C8 as stated fails on every successful call: the configuration object had no
  \<open>model_type\<close> before the call and has the optimizer's tag afterwards.
\<close>

theorem optimize_assigns_model_type:
  "optimize sample_env 0 (Some 0) [] sample_world = (Inr 0, once_optimized)
   \<and> cfg_model_type (opt_configs sample_world 0) = None
   \<and> cfg_model_type (opt_configs once_optimized 0) = Some ''bert''"
  using optimize_sample
  by (simp add: once_optimized_def run_defs sample_defs)


section \<open>Loading a named file from a local directory\<close>

text \<open>
  C9, as amended. For every successful load from an existing local directory with a
  caller-supplied file name and without a \<open>latest_model_name\<close> keyword argument, the
  session is the one that loading the named file gives, \<open>model_save_dir\<close> is the
  directory and \<open>latest_model_name\<close> is the default \<open>model.onnx\<close>, which names another
  path than the file loaded whenever the supplied name is not \<open>model.onnx\<close>.
  Consequently a later \<open>_save_pretrained\<close> copies from the directory joined with
  \<open>model.onnx\<close>, and a later \<open>quantize\<close> or \<open>optimize\<close> either makes no call to an
  external tool or makes its first one (\<open>onnx.load\<close>, respectively the optimizer) on
  that path.
\<close>

theorem local_load_keeps_default_name:
  assumes "model_id \<in> dirs w" and "kw_latest_model_name kw = None"
    and "ORTModel_from_pretrained E c model_id use_auth_token revision force_download
           cache_dir (Some n) kw w = (Inr r, w')"
  shows "(\<exists>s. fst (load_model E (joinpath model_id n) None w) = Inr s
            \<and> model (adapters w' r) = Some s)
     \<and> model_save_dir (adapters w' r) = Some model_id
     \<and> latest_model_name (adapters w' r) = ''model.onnx''
     \<and> (n \<noteq> ''model.onnx'' \<longrightarrow> joinpath model_id ''model.onnx'' \<noteq> joinpath model_id n)
     \<and> ORTModel_save_pretrained E r D fn w'
         = copyfile (joinpath model_id ''model.onnx'')
             (joinpath D (case fn of Some x \<Rightarrow> x | None \<Rightarrow> ONNX_WEIGHTS_NAME E)) w'
     \<and> (\<forall>res w''. quantize E r qc out w' = (res, w'') \<longrightarrow>
           calls w'' = calls w'
           \<or> take 1 (drop (length (calls w')) (calls w''))
               = [Call_onnx_load (joinpath model_id ''model.onnx'')])
     \<and> (\<forall>res w''. optimize E r oc out w' = (res, w'') \<longrightarrow>
           calls w'' = calls w'
           \<or> (\<exists>args. take 1 (drop (length (calls w')) (calls w'')) = [Call_optimize_model args]
                 \<and> arg_input args = joinpath model_id ''model.onnx''))"
proof -
  from assms obtain s w1 a where
    l: "load_model E (joinpath model_id n) None w = (Inr s, w1)"
    and k: "construct c (Some s) (Some (from_dict E (case kw_config kw of None \<Rightarrow> Map.empty | Some d \<Rightarrow> d)))
              (kw\<lparr>kw_config := None, kw_model_save_dir := Some model_id\<rparr>) = Inr a"
    and r: "r = next_ref w1"
    and w': "w' = w1\<lparr>adapters := (adapters w1)(next_ref w1 := a), next_ref := Suc (next_ref w1)\<rparr>"
    by (auto simp: ORTModel_from_pretrained_def Let_def and_then_Inr new_instance_def raise_or_Inr)
  from construct_fields [OF k] assms(2) have
    a: "model a = Some s" "model_save_dir a = Some model_id" "latest_model_name a = ''model.onnx''"
    by simp_all
  have ar: "adapters w' r = a"
    using r w' by simp
  have p: "current_artifact_path (adapters w' r) = Inr (joinpath model_id ''model.onnx'')"
    using ar a by (simp add: current_artifact_path_def)
  show ?thesis
    using l ar a save_pretrained_source [OF p] quantize_first_call [OF p] optimize_first_call [OF p]
    by (auto simp: joinpath_def)
qed

theorem local_load_keeps_default_name_witness:
  "[''m''] \<in> dirs sample_world \<and> kw_latest_model_name no_kwargs = None
   \<and> ORTModel_from_pretrained sample_env ORTModelForFeatureExtraction [''m''] None None True
        None (Some ''other.onnx'') no_kwargs sample_world = (Inr 3, loaded_other)
   \<and> map_option session_model (model (adapters loaded_other 3)) = Some encoder_graph
   \<and> model_save_dir (adapters loaded_other 3) = Some [''m'']
   \<and> latest_model_name (adapters loaded_other 3) = ''model.onnx''
   \<and> fs loaded_other [''m'', ''model.onnx''] = Some classifier_graph"
proof -
  have d: "[''m''] \<in> dirs sample_world" and k: "kw_latest_model_name no_kwargs = None"
    by (simp_all add: sample_defs)
  have f: "fs loaded_other [''m'', ''model.onnx''] = Some classifier_graph"
    and e: "map_option session_model (model (adapters loaded_other 3)) = Some encoder_graph"
    by (simp_all add: loaded_other_def run_defs sample_defs)
  from local_load_keeps_default_name [OF d k from_pretrained_sample] d k from_pretrained_sample f e
  show ?thesis by simp
qed

text \<open>
  C9 as stated fails when the caller passes \<open>latest_model_name\<close> among the keyword
  arguments, which \<open>_from_pretrained\<close> hands on to \<open>__init__\<close>.
\<close>

theorem latest_model_name_keyword_overrides_default:
  "[''m''] \<in> dirs sample_world
   \<and> fst (ORTModel_from_pretrained sample_env ORTModelForFeatureExtraction [''m''] None None True
        None (Some ''other.onnx'') (no_kwargs\<lparr>kw_latest_model_name := Some ''other.onnx''\<rparr>)
        sample_world) = Inr 3
   \<and> latest_model_name (adapters (snd (ORTModel_from_pretrained sample_env
        ORTModelForFeatureExtraction [''m''] None None True
        None (Some ''other.onnx'') (no_kwargs\<lparr>kw_latest_model_name := Some ''other.onnx''\<rparr>)
        sample_world)) 3) = ''other.onnx''
   \<and> current_artifact_path (adapters (snd (ORTModel_from_pretrained sample_env
        ORTModelForFeatureExtraction [''m''] None None True
        None (Some ''other.onnx'') (no_kwargs\<lparr>kw_latest_model_name := Some ''other.onnx''\<rparr>)
        sample_world)) 3) = Inr [''m'', ''other.onnx'']"
  by (simp add: run_defs sample_defs)


section \<open>Saving and loading again\<close>

text \<open>
  C6 on the sample directory. A feature-extraction adapter is loaded from
  \<open>m/other.onnx\<close>, saved to \<open>out/copy.onnx\<close>, and \<open>out/copy.onnx\<close> is loaded: all
  three calls succeed. The first session declares the output \<open>last_hidden_state\<close>, the
  reloaded one declares \<open>logits\<close>, because the save copied \<open>m/model.onnx\<close>; \<open>forward\<close>
  works on the first adapter and raises a key error on the second. The round trip of C6
  fails here for the reason C9 gives: the local branch of \<open>_from_pretrained\<close> does not
  record the file name it loaded, which the hub branch does.
\<close>

theorem roundtrip_after_named_local_load:
  "ORTModel_from_pretrained sample_env ORTModelForFeatureExtraction [''m''] None None True
     None (Some ''other.onnx'') no_kwargs sample_world = (Inr 3, loaded_other)
   \<and> ORTModel_save_pretrained sample_env 3 [''out''] (Some ''copy.onnx'') loaded_other
       = (Inr (), saved_copy)
   \<and> ORTModel_from_pretrained sample_env ORTModelForFeatureExtraction [''out''] None None True
        None (Some ''copy.onnx'') no_kwargs saved_copy = (Inr 4, reloaded_copy)
   \<and> map_option get_inputs (model (adapters loaded_other 3))
       = Some [''input_ids'', ''attention_mask'']
   \<and> map_option get_outputs (model (adapters loaded_other 3)) = Some [''last_hidden_state'']
   \<and> map_option get_inputs (model (adapters reloaded_copy 4))
       = Some [''input_ids'', ''attention_mask'']
   \<and> map_option get_outputs (model (adapters reloaded_copy 4)) = Some [''logits'']
   \<and> forward sample_env (adapters loaded_other 3) (Some sample_tensor) (Some sample_tensor) None
       = Inr (BaseModelOutput (Tensor [1, 2] [0, 0]))
   \<and> forward sample_env (adapters reloaded_copy 4) (Some sample_tensor) (Some sample_tensor) None
       = Inl (KeyError ''last_hidden_state'')"
  by (simp add: reloaded_copy_def saved_copy_def loaded_other_def prod_eq_iff run_defs sample_defs
      get_inputs_def get_outputs_def forward_def onnx_inputs_def run_def output_at_def
      name_index_def sample_tensor_def)

section \<open>Required output names\<close>

lemma fold_name_index_None:
  "fold (\<lambda>(idx, n) d. d(n \<mapsto> idx)) (enumerate k names) d0 x = None
     \<longleftrightarrow> d0 x = None \<and> x \<notin> set names"
  by (induction names arbitrary: k d0) auto

lemma name_index_None: "name_index names x = None \<longleftrightarrow> x \<notin> set names"
  by (simp add: name_index_def fold_name_index_None)

lemma construct_Some:
  "\<exists>a. construct c (Some s) cfg kw = Inr a
       \<and> cls a = c
       \<and> (c \<noteq> ORTModel_base \<longrightarrow> model_outputs a = Some (name_index (get_outputs s)))"
  by (cases c) (simp_all add: ORTModel_init_def)

text \<open>
  C7. Construction of an adapter of any class from a session whose declared outputs
  include the names the class reads succeeds; and when a name the class reads is absent
  from the declared outputs of the session the adapter was constructed from, \<open>forward\<close>
  raises an error, whatever the inputs and whatever the engine returns.
\<close>

theorem required_outputs_checked:
  "(set (required_outputs c) \<subseteq> set (get_outputs s) \<longrightarrow>
      (\<exists>a. construct c (Some s) cfg kw = Inr a))
   \<and> (\<forall>a n. construct c (Some s) cfg kw = Inr a
          \<and> n \<in> set (required_outputs c) \<and> n \<notin> set (get_outputs s) \<longrightarrow>
          (\<exists>e. forward E a input_ids attention_mask token_type_ids = Inl e))"
proof (intro conjI impI allI)
  show "\<exists>a. construct c (Some s) cfg kw = Inr a"
    using construct_Some [of c s cfg kw] by blast
next
  fix a n
  assume h: "construct c (Some s) cfg kw = Inr a
          \<and> n \<in> set (required_outputs c) \<and> n \<notin> set (get_outputs s)"
  from construct_Some [of c s cfg kw] h have
    a: "cls a = c" "c \<noteq> ORTModel_base \<longrightarrow> model_outputs a = Some (name_index (get_outputs s))"
    by auto
  from h have "name_index (get_outputs s) n = None"
    by (simp add: name_index_None)
  with h a show "\<exists>e. forward E a input_ids attention_mask token_type_ids = Inl e"
    by (cases c) (auto simp: forward_def output_at_def split: sum.splits option.splits)
qed

theorem required_outputs_checked_witness:
  "set (required_outputs ORTModelForSequenceClassification)
     \<subseteq> set (get_outputs (cpu_session classifier_graph))
   \<and> (\<exists>a. construct ORTModelForSequenceClassification (Some (cpu_session classifier_graph))
            (Some bert_config) no_kwargs = Inr a
         \<and> forward sample_env a (Some sample_tensor) (Some sample_tensor) None
             = Inr (SequenceClassifierOutput (Tensor [1, 2] [0, 0])))
   \<and> ''logits'' \<in> set (required_outputs ORTModelForSequenceClassification)
   \<and> ''logits'' \<notin> set (get_outputs (cpu_session encoder_graph))
   \<and> (\<exists>a. construct ORTModelForSequenceClassification (Some (cpu_session encoder_graph))
            (Some bert_config) no_kwargs = Inr a
         \<and> forward sample_env a (Some sample_tensor) (Some sample_tensor) None
             = Inl (KeyError ''logits''))"
  using required_outputs_checked [of ORTModelForSequenceClassification
      "cpu_session classifier_graph" "Some bert_config" no_kwargs sample_env
      "Some sample_tensor" "Some sample_tensor" None]
    required_outputs_checked [of ORTModelForSequenceClassification
      "cpu_session encoder_graph" "Some bert_config" no_kwargs sample_env
      "Some sample_tensor" "Some sample_tensor" None]
  by (simp add: sample_defs get_inputs_def get_outputs_def forward_def onnx_inputs_def run_def
      output_at_def name_index_def sample_tensor_def ORTModel_init_def)

section \<open>Required inputs of \<open>forward\<close>\<close>

text \<open>
  C10. For every task adapter, \<open>forward\<close> with \<open>input_ids\<close> equal to \<open>None\<close>, or with
  \<open>attention_mask\<close> equal to \<open>None\<close>, raises an attribute error; with both given and
  \<open>token_type_ids\<close> equal to \<open>None\<close>, the engine input map holds exactly \<open>input_ids\<close>
  and \<open>attention_mask\<close>, and \<open>forward\<close> is the session run on that map followed by the
  wrapping of its outputs.
\<close>

theorem forward_requires_ids_and_mask:
  assumes "cls a \<noteq> ORTModel_base"
  shows "forward E a None attention_mask token_type_ids = Inl (AttributeError ''cpu'')
     \<and> forward E a (Some i) None token_type_ids = Inl (AttributeError ''cpu'')
     \<and> onnx_inputs (cls a) (Some i) (Some m) None
         = Inr [(''input_ids'', numpy i), (''attention_mask'', numpy m)]
     \<and> forward E a (Some i) (Some m) None
         = (case run E a [(''input_ids'', numpy i), (''attention_mask'', numpy m)] of
              Inl e \<Rightarrow> Inl e
            | Inr outputs \<Rightarrow> wrap_outputs (cls a) a outputs)"
  using assms by (simp add: forward_def onnx_inputs_def Let_def)

theorem forward_requires_ids_and_mask_witness:
  "cls sample_adapter \<noteq> ORTModel_base
   \<and> forward sample_env sample_adapter None (Some sample_tensor) (Some sample_tensor)
       = Inl (AttributeError ''cpu'')
   \<and> forward sample_env sample_adapter (Some sample_tensor) None (Some sample_tensor)
       = Inl (AttributeError ''cpu'')
   \<and> onnx_inputs (cls sample_adapter) (Some sample_tensor) (Some sample_tensor) None
       = Inr [(''input_ids'', numpy sample_tensor), (''attention_mask'', numpy sample_tensor)]
   \<and> forward sample_env sample_adapter (Some sample_tensor) (Some sample_tensor) None
       = Inr (SequenceClassifierOutput (Tensor [1, 2] [0, 0]))"
proof -
  have c: "cls sample_adapter \<noteq> ORTModel_base"
    by (simp add: sample_adapter_def)
  have r: "run sample_env sample_adapter
             [(''input_ids'', numpy sample_tensor), (''attention_mask'', numpy sample_tensor)]
           = Inr [NDArray [1, 2] [0, 0]]"
    by (simp add: run_def sample_defs get_outputs_def)
  have w: "wrap_outputs (cls sample_adapter) sample_adapter [NDArray [1, 2] [0, 0]]
           = Inr (SequenceClassifierOutput (Tensor [1, 2] [0, 0]))"
    by (simp add: sample_adapter_def output_at_def name_index_def)
  from forward_requires_ids_and_mask [OF c, of sample_env "Some sample_tensor" "Some sample_tensor"
      sample_tensor sample_tensor] c r w
  show ?thesis by simp
qed


end
